theory Spec2Isabelle
  imports Complex_Main
begin

section \<open>JavaScript values\<close>

text \<open>
  The analyzer of \<^verbatim>\<open>src/App.tsx\<close> copies the numbers of a model response into plotted
  points and into a cache. At run time those "numbers" are whatever the parsed JSON
  holds, so the model keeps JavaScript values as they are: \<open>JUndefined\<close> is the value
  of a missing property. Numbers are only copied and compared, never computed with.
  An object is the list of its own properties; the platform's JSON reader delivers
  each key once, and a lookup takes the first entry of a key.
\<close>

datatype jsval =
    JUndefined
  | JNull
  | JBool bool
  | JNum real
  | JStr string
  | JArr "jsval list"
  | JObj "(string \<times> jsval) list"

text \<open>\<^verbatim>\<open>v === undefined || v === null\<close>: where a property access throws and \<^verbatim>\<open>?.\<close> stops.\<close>

fun nullish :: "jsval \<Rightarrow> bool" where
  "nullish JUndefined = True"
| "nullish JNull = True"
| "nullish _ = False"

text \<open>\<^verbatim>\<open>!v\<close>\<close>

fun falsy :: "jsval \<Rightarrow> bool" where
  "falsy JUndefined = True"
| "falsy JNull = True"
| "falsy (JBool b) = (\<not> b)"
| "falsy (JNum r) = (r = 0)"
| "falsy (JStr t) = (t = [])"
| "falsy (JArr _) = False"
| "falsy (JObj _) = False"

text \<open>
  \<^verbatim>\<open>v.name\<close> on a value that is not nullish, for the names the analyzer reads
  (\<^verbatim>\<open>candidates\<close>, \<^verbatim>\<open>content\<close>, \<^verbatim>\<open>parts\<close>, \<^verbatim>\<open>text\<close>, \<^verbatim>\<open>x\<close>, \<^verbatim>\<open>y\<close>, \<^verbatim>\<open>y_min\<close>, \<^verbatim>\<open>y_max\<close>,
  \<^verbatim>\<open>x_min\<close>, \<^verbatim>\<open>x_max\<close>): none of them is a property of a prototype, so only an object
  has them.
\<close>

fun getProp :: "string \<Rightarrow> jsval \<Rightarrow> jsval" where
  "getProp name (JObj props) = (case map_of props name of Some v \<Rightarrow> v | None \<Rightarrow> JUndefined)"
| "getProp name _ = JUndefined"

text \<open>\<^verbatim>\<open>v[0]\<close> on a value that is not nullish.\<close>

fun getIndex0 :: "jsval \<Rightarrow> jsval" where
  "getIndex0 (JArr (v # vs)) = v"
| "getIndex0 (JStr (c # cs)) = JStr [c]"
| "getIndex0 (JObj props) = getProp ''0'' (JObj props)"
| "getIndex0 _ = JUndefined"

text \<open>One link \<^verbatim>\<open>?.\<close> of an optional chain.\<close>

definition optChain :: "(jsval \<Rightarrow> jsval) \<Rightarrow> jsval \<Rightarrow> jsval" where
  "optChain access v = (if nullish v then JUndefined else access v)"

section \<open>Text\<close>

text \<open>
  Text is modelled over the code points below 256 (an Isabelle \<open>char\<close>), where
  \<^verbatim>\<open>String.prototype.trim\<close> strips TAB, LF, VT, FF, CR, SPACE and NBSP and
  \<^verbatim>\<open>String.prototype.toLowerCase\<close> maps A-Z and the capital letters U+00C0-U+00DE
  (without the multiplication sign U+00D7) 32 places up.
\<close>

definition isWhiteSpace :: "char \<Rightarrow> bool" where
  "isWhiteSpace c = (let n = (of_char c :: nat) in (9 \<le> n \<and> n \<le> 13) \<or> n = 32 \<or> n = 160)"

definition trim :: "string \<Rightarrow> string" where
  "trim t = rev (dropWhile isWhiteSpace (rev (dropWhile isWhiteSpace t)))"

definition lowerChar :: "char \<Rightarrow> char" where
  "lowerChar c =
     (let n = (of_char c :: nat) in
      if (65 \<le> n \<and> n \<le> 90) \<or> (192 \<le> n \<and> n \<le> 222 \<and> n \<noteq> 215)
      then char_of (n + 32) else c)"

definition toLowerCase :: "string \<Rightarrow> string" where
  "toLowerCase t = map lowerChar t"

text \<open>\<^verbatim>\<open>Number.prototype.toString\<close> on a natural number: its decimal digits.\<close>

fun toString :: "nat \<Rightarrow> string" where
  "toString n =
     (if n < 10 then [char_of (48 + n)]
      else toString (n div 10) @ [char_of (48 + n mod 10)])"

declare toString.simps [simp del]

section \<open>Data model\<close>

datatype AnalysisMode = philosopher | seismograph

fun modeName :: "AnalysisMode \<Rightarrow> string" where
  "modeName philosopher = ''philosopher''"
| "modeName seismograph = ''seismograph''"

text \<open>\<^verbatim>\<open>type MoralPoint\<close>; the optional bounds are \<open>JUndefined\<close> when absent.\<close>

record MoralPoint =
  p_id :: string
  p_action :: string
  p_intent :: string
  p_x :: jsval
  p_y :: jsval
  p_yMin :: jsval
  p_yMax :: jsval
  p_xMin :: jsval
  p_xMax :: jsval
  p_label :: string
  p_mode :: AnalysisMode
  p_showNoise :: bool

text \<open>The value type of \<^verbatim>\<open>yCache\<close>: \<^verbatim>\<open>{ y, yMin?, yMax?, xMin?, xMax? }\<close>.\<close>

record CacheEntry =
  c_y :: jsval
  c_yMin :: jsval
  c_yMax :: jsval
  c_xMin :: jsval
  c_xMax :: jsval

text \<open>What \<^verbatim>\<open>callGeminiAPI\<close> resolves to.\<close>

record ApiResult =
  r_x :: jsval
  r_y :: jsval
  r_yMin :: jsval
  r_yMax :: jsval
  r_xMin :: jsval
  r_xMax :: jsval

text \<open>The component's \<^verbatim>\<open>useState\<close> cells.\<close>

record AppState =
  actionInput :: string
  intentInput :: string
  mode :: AnalysisMode
  isTooltipActive :: bool
  points :: "MoralPoint list"
  yCache :: "string \<rightharpoonup> CacheEntry"
  isSimulating :: bool
  error :: "string option"
  notification :: "string option"

definition initialState :: AppState where
  "initialState =
     \<lparr> actionInput = '''',
       intentInput = '''',
       mode = seismograph,
       isTooltipActive = False,
       points =
         [\<lparr> p_id = ''1'',
            p_action = ''I abort my child'',
            p_intent = ''My life was in danger'',
            p_x = JNum 0.95,
            p_y = JNum (- 0.3),
            p_yMin = JNum (- 0.8),
            p_yMax = JNum 0.2,
            p_xMin = JNum 0.85,
            p_xMax = JNum 1.0,
            p_label = ''Abortion for the life of the mother'',
            p_mode = seismograph,
            p_showNoise = True \<rparr>],
       yCache =
         [''seismograph:i abort my child'' \<mapsto>
            \<lparr> c_y = JNum (- 0.3),
              c_yMin = JNum (- 0.8),
              c_yMax = JNum 0.2,
              c_xMin = JNum 0.85,
              c_xMax = JNum 1.0 \<rparr>],
       isSimulating = False,
       error = None,
       notification = None \<rparr>"

section \<open>The outside world\<close>

text \<open>
  What \<^verbatim>\<open>fetch\<close> resolves to: the status line and, when the body is JSON,
  the value \<^verbatim>\<open>response.json()\<close> resolves to (\<open>None\<close> when it rejects).
\<close>

record HttpResponse =
  resp_ok :: bool
  resp_status :: nat
  resp_json :: "jsval option"

text \<open>
  One submission sees the network, the platform's \<^verbatim>\<open>JSON.parse\<close> and the clock.
  \<open>fetch env n request\<close> is the outcome of the \<open>n\<close>-th request of the submission
  (\<open>None\<close>: the promise rejects), the request being the prompt selected by the mode
  with action and intent interpolated; \<open>JSON_parse env v\<close> is \<^verbatim>\<open>JSON.parse(v)\<close>
  (\<open>None\<close>: it throws); \<open>Date_now env\<close> is the clock when the point is built.
\<close>

record Env =
  fetch :: "nat \<Rightarrow> AnalysisMode \<times> string \<times> string \<Rightarrow> HttpResponse option"
  JSON_parse :: "jsval \<Rightarrow> jsval option"
  Date_now :: nat

datatype ApiError =
    NetworkFailure
  | ApiStatus nat
  | BodyNotJson
  | TypeError
  | NoAnalysis
  | TextNotJson

section \<open>The analysis client\<close>

text \<open>\<^verbatim>\<open>data.candidates?.[0]?.content?.parts?.[0]?.text\<close>\<close>

definition resultTextOf :: "jsval \<Rightarrow> ApiError + jsval" where
  "resultTextOf data =
     (if nullish data then Inl TypeError
      else Inr (optChain (getProp ''text'')
                 (optChain getIndex0
                   (optChain (getProp ''parts'')
                     (optChain (getProp ''content'')
                       (optChain getIndex0 (getProp ''candidates'' data)))))))"

text \<open>
  \<^verbatim>\<open>callGeminiAPI\<close> (lines 70-189): \<open>Inl\<close> is the error it rethrows (after logging
  it to the console, which the model leaves out). \<open>n\<close> numbers the request within the
  submission; the prompt is a function of the mode, the action and the intent, which
  stand for it in the request.
\<close>

definition callGeminiAPI ::
  "Env \<Rightarrow> nat \<Rightarrow> string \<Rightarrow> string \<Rightarrow> AnalysisMode \<Rightarrow> ApiError + ApiResult" where
  "callGeminiAPI env n action intent currentMode =
     (case fetch env n (currentMode, action, intent) of
        None \<Rightarrow> Inl NetworkFailure
      | Some response \<Rightarrow>
          if \<not> resp_ok response then Inl (ApiStatus (resp_status response))
          else
            (case resp_json response of
               None \<Rightarrow> Inl BodyNotJson
             | Some data \<Rightarrow>
                 (case resultTextOf data of
                    Inl e \<Rightarrow> Inl e
                  | Inr resultText \<Rightarrow>
                      if falsy resultText then Inl NoAnalysis
                      else
                        (case JSON_parse env resultText of
                           None \<Rightarrow> Inl TextNotJson
                         | Some parsed \<Rightarrow>
                             if nullish parsed then Inl TypeError
                             else
                               Inr \<lparr> r_x = getProp ''x'' parsed,
                                     r_y = getProp ''y'' parsed,
                                     r_yMin = getProp ''y_min'' parsed,
                                     r_yMax = getProp ''y_max'' parsed,
                                     r_xMin = getProp ''x_min'' parsed,
                                     r_xMax = getProp ''x_max'' parsed \<rparr>))))"

text \<open>
  What a handler does, in order: the state setters it calls, the requests it sends and
  the timers it awaits.
\<close>

datatype Effect =
    SetIsSimulating bool
  | SetError "string option"
  | Fetch AnalysisMode string string
  | Wait nat
  | PutYCache string CacheEntry
  | AppendPoint MoralPoint
  | SetActionInput string
  | SetIntentInput string

fun perform :: "Effect \<Rightarrow> AppState \<Rightarrow> AppState" where
  "perform (SetIsSimulating b) s = s\<lparr>isSimulating := b\<rparr>"
| "perform (SetError e) s = s\<lparr>error := e\<rparr>"
| "perform (Fetch m a i) s = s"
| "perform (Wait ms) s = s"
| "perform (PutYCache k e) s = s\<lparr>yCache := (yCache s)(k \<mapsto> e)\<rparr>"
| "perform (AppendPoint p) s = s\<lparr>points := points s @ [p]\<rparr>"
| "perform (SetActionInput t) s = s\<lparr>actionInput := t\<rparr>"
| "perform (SetIntentInput t) s = s\<lparr>intentInput := t\<rparr>"

text \<open>\<^verbatim>\<open>`${mode}:${actionInput.trim().toLowerCase()}`\<close>\<close>

definition actionKey :: "AppState \<Rightarrow> string" where
  "actionKey s = modeName (mode s) @ '':'' @ toLowerCase (trim (actionInput s))"

text \<open>The body of the inner \<^verbatim>\<open>try\<close> after the call has resolved (lines 207-252).\<close>

definition onResult :: "Env \<Rightarrow> AppState \<Rightarrow> ApiResult \<Rightarrow> Effect list" where
  "onResult env s apiResult =
     (let (finalY, finalYMin, finalYMax, cacheWrite) =
            (case yCache s (actionKey s) of
               Some cached \<Rightarrow> (c_y cached, c_yMin cached, c_yMax cached, [])
             | None \<Rightarrow>
                 (r_y apiResult, r_yMin apiResult, r_yMax apiResult,
                  [PutYCache (actionKey s)
                     \<lparr> c_y = r_y apiResult,
                       c_yMin = r_yMin apiResult,
                       c_yMax = r_yMax apiResult,
                       c_xMin = JUndefined,
                       c_xMax = JUndefined \<rparr>]));
          newPoint =
            \<lparr> p_id = toString (Date_now env),
              p_action = actionInput s,
              p_intent = intentInput s,
              p_x = r_x apiResult,
              p_y = finalY,
              p_yMin = finalYMin,
              p_yMax = finalYMax,
              p_xMin = r_xMin apiResult,
              p_xMax = r_xMax apiResult,
              p_label = ''Scenario '' @ toString (length (points s) + 1),
              p_mode = mode s,
              p_showNoise = False \<rparr>
      in cacheWrite @
         [AppendPoint newPoint, SetActionInput '''', SetIntentInput '''', SetIsSimulating False])"

text \<open>
  The retry loop \<^verbatim>\<open>for (let i = 0; i < 3; i++)\<close> (lines 203-257), from iteration \<open>i\<close>
  with \<open>lastError\<close> as it stands: it returns on the first result, and leaves the loop
  for \<^verbatim>\<open>throw lastError\<close> otherwise.
\<close>

datatype LoopExit = Returned | Threw "ApiError option"

function attempts :: "Env \<Rightarrow> AppState \<Rightarrow> nat \<Rightarrow> ApiError option \<Rightarrow> Effect list \<times> LoopExit" where
  "attempts env s i lastError =
     (if i < 3 then
        (case callGeminiAPI env i (actionInput s) (intentInput s) (mode s) of
           Inr apiResult \<Rightarrow>
             (Fetch (mode s) (actionInput s) (intentInput s) # onResult env s apiResult, Returned)
         | Inl e \<Rightarrow>
             apfst (\<lambda>rest. Fetch (mode s) (actionInput s) (intentInput s) # Wait (2 ^ i * 1000) # rest)
               (attempts env s (Suc i) (Some e)))
      else ([], Threw lastError))"
  by pat_completeness auto
termination
  by (relation "measure (\<lambda>(env, s, i, lastError). 3 - i)") auto

declare attempts.simps [simp del]

text \<open>\<^verbatim>\<open>handleAnalyze\<close> (lines 191-264).\<close>

definition handleAnalyze :: "Env \<Rightarrow> AppState \<Rightarrow> Effect list" where
  "handleAnalyze env s =
     (if actionInput s = [] \<or> intentInput s = [] then []
      else
        SetIsSimulating True # SetError None #
        (case attempts env s 0 None of
           (trace, Returned) \<Rightarrow> trace
         | (trace, Threw lastError) \<Rightarrow>
             trace @ [SetError (Some ''AI Analysis failed. Please try again.''),
                     SetIsSimulating False]))"

text \<open>
  The state once the handler has settled: its setters applied in order to the state it
  was started in. The handlers are taken one after another, each started in the state
  the one before has left (the submit button is disabled while a request is in flight);
  what the other buttons do to a submission in flight is outside this model.
\<close>

definition analyzed :: "Env \<Rightarrow> AppState \<Rightarrow> AppState" where
  "analyzed env s = fold perform (handleAnalyze env s) s"

section \<open>The point store and the cache controls\<close>

definition removePoint :: "string \<Rightarrow> AppState \<Rightarrow> AppState" where
  "removePoint ident s = s\<lparr>points := filter (\<lambda>p. p_id p \<noteq> ident) (points s)\<rparr>"

definition clearAllPoints :: "AppState \<Rightarrow> AppState" where
  "clearAllPoints s = s\<lparr>points := []\<rparr>"

definition toggleNoise :: "string \<Rightarrow> AppState \<Rightarrow> AppState" where
  "toggleNoise ident s =
     s\<lparr>points := map (\<lambda>p. if p_id p = ident then p\<lparr>p_showNoise := \<not> p_showNoise p\<rparr> else p) (points s)\<rparr>"

text \<open>
  \<^verbatim>\<open>clearCache\<close>; the timer it starts runs \<open>notificationExpired\<close> three seconds later.
\<close>

definition clearCache :: "AppState \<Rightarrow> AppState" where
  "clearCache s = s\<lparr>yCache := Map.empty, notification := Some ''Logic Cache Cleared Successfully''\<rparr>"

definition notificationExpired :: "AppState \<Rightarrow> AppState" where
  "notificationExpired s = s\<lparr>notification := None\<rparr>"

section \<open>Vocabulary of the statements\<close>

text \<open>The \<open>n\<close>-th call of the retry loop in state \<open>s\<close>, and the request it sends.\<close>

definition attempt :: "Env \<Rightarrow> AppState \<Rightarrow> nat \<Rightarrow> ApiError + ApiResult" where
  "attempt env s n = callGeminiAPI env n (actionInput s) (intentInput s) (mode s)"

definition request :: "AppState \<Rightarrow> Effect" where
  "request s = Fetch (mode s) (actionInput s) (intentInput s)"

text \<open>
  The trace of \<open>k\<close> failed attempts: after attempt \<open>n\<close> the handler awaits a timer
  of \<^verbatim>\<open>Math.pow(2, n) * 1000\<close> milliseconds.
\<close>

definition backoff :: "AppState \<Rightarrow> nat \<Rightarrow> Effect list" where
  "backoff s k = concat (map (\<lambda>n. [request s, Wait (2 ^ n * 1000)]) [0..<k])"

text \<open>Kinds of effect, for counting them in a trace.\<close>

fun isRequest :: "Effect \<Rightarrow> bool" where
  "isRequest (Fetch m a i) = True"
| "isRequest _ = False"

fun isCacheWrite :: "Effect \<Rightarrow> bool" where
  "isCacheWrite (PutYCache k e) = True"
| "isCacheWrite _ = False"

fun isAppend :: "Effect \<Rightarrow> bool" where
  "isAppend (AppendPoint p) = True"
| "isAppend _ = False"

fun isErrorShown :: "Effect \<Rightarrow> bool" where
  "isErrorShown (SetError (Some msg)) = True"
| "isErrorShown _ = False"

text \<open>The requests and the timers of a trace.\<close>

fun isNetwork :: "Effect \<Rightarrow> bool" where
  "isNetwork (Fetch m a i) = True"
| "isNetwork (Wait ms) = True"
| "isNetwork _ = False"

text \<open>The user fills the two inputs (the \<^verbatim>\<open>onChange\<close> handlers, lines 475 and 485).\<close>

definition setInputs :: "string \<Rightarrow> string \<Rightarrow> AppState \<Rightarrow> AppState" where
  "setInputs a b s = s\<lparr>actionInput := a, intentInput := b\<rparr>"

section \<open>Example scenarios\<close>

text \<open>
  A response of the model endpoint whose first candidate's first part carries the
  text \<open>t\<close>, and a \<^verbatim>\<open>JSON.parse\<close> restricted to that text, which it reads as \<open>v\<close>.
\<close>

definition modelReply :: "string \<Rightarrow> HttpResponse" where
  "modelReply t =
     \<lparr> resp_ok = True, resp_status = 200,
       resp_json = Some (JObj [(''candidates'',
         JArr [JObj [(''content'', JObj [(''parts'', JArr [JObj [(''text'', JStr t)]])])]])]) \<rparr>"

definition parsesTo :: "string \<Rightarrow> jsval \<Rightarrow> jsval \<Rightarrow> jsval option" where
  "parsesTo t v w = (if w = JStr t then Some v else None)"

text \<open>The endpoint answers every request with the text \<open>t\<close>.\<close>

definition answering :: "string \<Rightarrow> jsval \<Rightarrow> nat \<Rightarrow> Env" where
  "answering t v now =
     \<lparr> fetch = (\<lambda>n req. Some (modelReply t)), JSON_parse = parsesTo t v, Date_now = now \<rparr>"

text \<open>No request gets through.\<close>

definition offline :: Env where
  "offline = \<lparr> fetch = (\<lambda>n req. None), JSON_parse = (\<lambda>w. None), Date_now = 0 \<rparr>"

text \<open>The first request is lost, the second is answered 503, the third succeeds.\<close>

definition flaky :: "string \<Rightarrow> jsval \<Rightarrow> nat \<Rightarrow> Env" where
  "flaky t v now =
     \<lparr> fetch = (\<lambda>n req.
         if n = 0 then None
         else if n = 1 then Some \<lparr> resp_ok = False, resp_status = 503, resp_json = None \<rparr>
         else Some (modelReply t)),
       JSON_parse = parsesTo t v, Date_now = now \<rparr>"

text \<open>The endpoint answers with a text that is not JSON, or with a body that is not.\<close>

definition babbling :: "string \<Rightarrow> Env" where
  "babbling t = \<lparr> fetch = (\<lambda>n req. Some (modelReply t)), JSON_parse = (\<lambda>w. None), Date_now = 0 \<rparr>"

definition unreadable :: Env where
  "unreadable =
     \<lparr> fetch = (\<lambda>n req. Some \<lparr> resp_ok = True, resp_status = 200, resp_json = None \<rparr>),
       JSON_parse = (\<lambda>w. None), Date_now = 0 \<rparr>"

text \<open>
  Two full answers, and an answer as the philosopher prompt asks for it: \<open>x\<close> and
  \<open>y\<close>, no bounds. Each text is paired with the value \<^verbatim>\<open>JSON.parse\<close> reads it as.
\<close>

definition fullText :: string where
  \<open>fullText = ''{"x":0.4,"y":0.7,"y_min":0.5,"y_max":0.9,"x_min":0.1,"x_max":0.6}''\<close>

definition fullValue :: jsval where
  "fullValue =
     JObj [(''x'', JNum 0.4), (''y'', JNum 0.7), (''y_min'', JNum 0.5), (''y_max'', JNum 0.9),
           (''x_min'', JNum 0.1), (''x_max'', JNum 0.6)]"

definition otherText :: string where
  \<open>otherText = ''{"x":-0.9,"y":-1,"y_min":-1,"y_max":-0.95,"x_min":-1,"x_max":-0.8}''\<close>

definition otherValue :: jsval where
  "otherValue =
     JObj [(''x'', JNum (- 0.9)), (''y'', JNum (- 1)), (''y_min'', JNum (- 1)),
           (''y_max'', JNum (- 0.95)), (''x_min'', JNum (- 1)), (''x_max'', JNum (- 0.8))]"

definition bareText :: string where
  \<open>bareText = ''{"x":0.5,"y":0.25}''\<close>

definition bareValue :: jsval where
  "bareValue = JObj [(''x'', JNum 0.5), (''y'', JNum 0.25)]"

text \<open>
  Submissions on the seeded state: the seeded action again with another intent, a new
  action, and that new action again once its first answer has been plotted.
\<close>

definition abortAgain :: AppState where
  "abortAgain = setInputs ''I abort my child'' ''For the insurance money'' initialState"

definition breadFirst :: AppState where
  "breadFirst = setInputs ''I steal bread'' ''To feed my family'' initialState"

definition breadAgain :: AppState where
  "breadAgain =
     setInputs ''I steal bread'' ''Because I can''
       (analyzed (answering fullText fullValue 1730000000000) breadFirst)"

text \<open>The seeded action again, after the cache has been cleared.\<close>

definition abortAfterClear :: AppState where
  "abortAfterClear =
     setInputs ''I abort my child'' ''For the insurance money'' (clearCache initialState)"

text \<open>The store once the new action has been plotted: the seeded point and one more.\<close>

definition twoPoints :: AppState where
  "twoPoints = analyzed (answering fullText fullValue 1730000000000) breadFirst"

text \<open>The points those submissions are expected to plot.\<close>

definition abortAgainPoint :: MoralPoint where
  "abortAgainPoint =
     \<lparr> p_id = ''1730000060000'', p_action = ''I abort my child'',
       p_intent = ''For the insurance money'',
       p_x = JNum (- 0.9), p_y = JNum (- 0.3), p_yMin = JNum (- 0.8), p_yMax = JNum 0.2,
       p_xMin = JNum (- 1), p_xMax = JNum (- 0.8),
       p_label = ''Scenario 2'', p_mode = seismograph, p_showNoise = False \<rparr>"

definition breadFirstPoint :: MoralPoint where
  "breadFirstPoint =
     \<lparr> p_id = ''1730000000000'', p_action = ''I steal bread'',
       p_intent = ''To feed my family'',
       p_x = JNum 0.4, p_y = JNum 0.7, p_yMin = JNum 0.5, p_yMax = JNum 0.9,
       p_xMin = JNum 0.1, p_xMax = JNum 0.6,
       p_label = ''Scenario 2'', p_mode = seismograph, p_showNoise = False \<rparr>"

definition breadAgainPoint :: MoralPoint where
  "breadAgainPoint =
     \<lparr> p_id = ''1730000060000'', p_action = ''I steal bread'',
       p_intent = ''Because I can'',
       p_x = JNum (- 0.9), p_y = JNum 0.7, p_yMin = JNum 0.5, p_yMax = JNum 0.9,
       p_xMin = JNum (- 1), p_xMax = JNum (- 0.8),
       p_label = ''Scenario 3'', p_mode = seismograph, p_showNoise = False \<rparr>"

definition abortAfterClearPoint :: MoralPoint where
  "abortAfterClearPoint =
     \<lparr> p_id = ''1730000060000'', p_action = ''I abort my child'',
       p_intent = ''For the insurance money'',
       p_x = JNum (- 0.9), p_y = JNum (- 1), p_yMin = JNum (- 1), p_yMax = JNum (- 0.95),
       p_xMin = JNum (- 1), p_xMax = JNum (- 0.8),
       p_label = ''Scenario 2'', p_mode = seismograph, p_showNoise = False \<rparr>"

definition breadBarePoint :: MoralPoint where
  "breadBarePoint =
     \<lparr> p_id = ''1730000000000'', p_action = ''I steal bread'',
       p_intent = ''To feed my family'',
       p_x = JNum 0.5, p_y = JNum 0.25, p_yMin = JUndefined, p_yMax = JUndefined,
       p_xMin = JUndefined, p_xMax = JUndefined,
       p_label = ''Scenario 2'', p_mode = seismograph, p_showNoise = False \<rparr>"

section \<open>The retry loop, case by case\<close>

lemma attempts_result:
  "i < 3 \<Longrightarrow> attempt env s i = Inr r \<Longrightarrow>
   attempts env s i lastError = (request s # onResult env s r, Returned)"
  by (subst attempts.simps) (simp add: attempt_def request_def)

lemma attempts_error:
  "i < 3 \<Longrightarrow> attempt env s i = Inl e \<Longrightarrow>
   attempts env s i lastError =
     apfst (\<lambda>rest. request s # Wait (2 ^ i * 1000) # rest) (attempts env s (Suc i) (Some e))"
  by (subst attempts.simps) (simp add: attempt_def request_def)

lemma attempts_exhausted: "attempts env s 3 lastError = ([], Threw lastError)"
  by (subst attempts.simps) simp

lemma attempts_fail_0:
  "attempt env s 0 = Inl e \<Longrightarrow>
   attempts env s 0 lastError = apfst (\<lambda>rest. request s # Wait 1000 # rest) (attempts env s 1 (Some e))"
  using attempts_error [of 0 env s e lastError] by simp

lemma attempts_fail_1:
  "attempt env s 1 = Inl e \<Longrightarrow>
   attempts env s 1 lastError = apfst (\<lambda>rest. request s # Wait 2000 # rest) (attempts env s 2 (Some e))"
  using attempts_error [of 1 env s e lastError] by (simp add: numeral_2_eq_2)

lemma attempts_fail_2:
  "attempt env s 2 = Inl e \<Longrightarrow>
   attempts env s 2 lastError = apfst (\<lambda>rest. request s # Wait 4000 # rest) (attempts env s 3 (Some e))"
  using attempts_error [of 2 env s e lastError] by (simp add: numeral_3_eq_3 numeral_2_eq_2)

lemma backoff_0: "backoff s 0 = []"
  by (simp add: backoff_def)

lemma backoff_1: "backoff s 1 = [request s, Wait 1000]"
  by (simp add: backoff_def)

lemma backoff_2: "backoff s 2 = [request s, Wait 1000, request s, Wait 2000]"
  by (simp add: backoff_def numeral_2_eq_2)

lemma backoff_3:
  "backoff s 3 = [request s, Wait 1000, request s, Wait 2000, request s, Wait 4000]"
  by (simp add: backoff_def numeral_3_eq_3)

lemma below_3: "(k::nat) < 3 \<Longrightarrow> k = 0 \<or> k = 1 \<or> k = 2"
  by arith

lemma attempts_first_result:
  assumes k: "k < 3" and fails: "\<forall>n<k. isl (attempt env s n)" and r: "attempt env s k = Inr r"
  shows "attempts env s 0 None = (backoff s k @ request s # onResult env s r, Returned)"
proof -
  consider "k = 0" | "k = 1" | "k = 2" using below_3 [OF k] by blast
  then show ?thesis
  proof cases
    case 1
    from r have "attempt env s 0 = Inr r" unfolding 1 .
    then have "attempts env s 0 None = (request s # onResult env s r, Returned)"
      by (rule attempts_result [rotated]) simp
    then show ?thesis unfolding 1 backoff_0 by simp
  next
    case 2
    from fails have "isl (attempt env s 0)" unfolding 2 by simp
    then obtain e0 where e0: "attempt env s 0 = Inl e0"
      by (auto simp: isl_def)
    from r have "attempt env s 1 = Inr r" unfolding 2 .
    then have "attempts env s 1 (Some e0) = (request s # onResult env s r, Returned)"
      by (rule attempts_result [rotated]) simp
    then have "attempts env s 0 None = (backoff s 1 @ request s # onResult env s r, Returned)"
      by (simp only: attempts_fail_0 [OF e0] apfst_conv backoff_1 append_Cons append_Nil)
    then show ?thesis unfolding 2 .
  next
    case 3
    from fails have "isl (attempt env s 0)" "isl (attempt env s 1)" unfolding 3 by simp_all
    then obtain e0 e1 where e0: "attempt env s 0 = Inl e0" and e1: "attempt env s 1 = Inl e1"
      by (auto simp: isl_def)
    from r have "attempt env s 2 = Inr r" unfolding 3 .
    then have "attempts env s 2 (Some e1) = (request s # onResult env s r, Returned)"
      by (rule attempts_result [rotated]) simp
    then have "attempts env s 0 None = (backoff s 2 @ request s # onResult env s r, Returned)"
      by (simp only: attempts_fail_0 [OF e0] attempts_fail_1 [OF e1] apfst_conv backoff_2
            append_Cons append_Nil)
    then show ?thesis unfolding 3 .
  qed
qed

lemma attempts_all_fail:
  assumes "\<forall>n<3. isl (attempt env s n)"
  shows "\<exists>e. attempts env s 0 None = (backoff s 3, Threw (Some e))"
proof -
  from assms have "isl (attempt env s 0)" "isl (attempt env s 1)" "isl (attempt env s 2)"
    by simp_all
  then obtain e0 e1 e2 where e: "attempt env s 0 = Inl e0" "attempt env s 1 = Inl e1"
      "attempt env s 2 = Inl e2"
    by (auto simp: isl_def)
  have "attempts env s 0 None = (backoff s 3, Threw (Some e2))"
    by (simp only: attempts_fail_0 [OF e(1)] attempts_fail_1 [OF e(2)]
          attempts_fail_2 [OF e(3)] attempts_exhausted apfst_conv backoff_3)
  then show ?thesis ..
qed

text \<open>Every submission ends one of two ways.\<close>

lemma first_result_or_none:
  "(\<exists>k<3. (\<forall>n<k. isl (attempt env s n)) \<and> (\<exists>r. attempt env s k = Inr r))
   \<or> (\<forall>n<3. isl (attempt env s n))"
proof (cases "\<forall>n<3. isl (attempt env s n)")
  case True
  then show ?thesis ..
next
  case False
  then obtain m where m: "m < 3" "\<not> isl (attempt env s m)" by blast
  define k where "k = (LEAST j. j < 3 \<and> \<not> isl (attempt env s j))"
  have kp: "k < 3 \<and> \<not> isl (attempt env s k)"
    unfolding k_def by (rule LeastI [of _ m]) (use m in simp)
  have "\<forall>n<k. isl (attempt env s n)"
  proof (intro allI impI)
    fix n assume "n < k"
    then have "\<not> (n < 3 \<and> \<not> isl (attempt env s n))"
      unfolding k_def by (rule not_less_Least)
    moreover from \<open>n < k\<close> kp have "n < 3" by simp
    ultimately show "isl (attempt env s n)" by simp
  qed
  moreover from kp obtain r where "attempt env s k = Inr r"
    by (cases "attempt env s k") auto
  ultimately show ?thesis using kp by blast
qed

lemma handleAnalyze_empty:
  "actionInput s = [] \<or> intentInput s = [] \<Longrightarrow> handleAnalyze env s = []"
  by (simp add: handleAnalyze_def)

lemma handleAnalyze_first_result:
  assumes "actionInput s \<noteq> []" "intentInput s \<noteq> []"
    and "k < 3" "\<forall>n<k. isl (attempt env s n)" "attempt env s k = Inr r"
  shows "handleAnalyze env s =
    SetIsSimulating True # SetError None # backoff s k @ request s # onResult env s r"
  using assms(1,2) by (simp add: handleAnalyze_def attempts_first_result [OF assms(3-5)])

lemma handleAnalyze_all_fail:
  assumes "actionInput s \<noteq> []" "intentInput s \<noteq> []" and "\<forall>n<3. isl (attempt env s n)"
  shows "handleAnalyze env s =
    SetIsSimulating True # SetError None # backoff s 3 @
      [SetError (Some ''AI Analysis failed. Please try again.''), SetIsSimulating False]"
proof -
  from attempts_all_fail [OF assms(3)] obtain e
    where "attempts env s 0 None = (backoff s 3, Threw (Some e))" ..
  with assms(1,2) show ?thesis by (simp add: handleAnalyze_def)
qed

section \<open>The state a submission leaves\<close>

lemma onResult_cached:
  "yCache s (actionKey s) = Some cached \<Longrightarrow>
   onResult env s r =
     [AppendPoint
        \<lparr> p_id = toString (Date_now env), p_action = actionInput s, p_intent = intentInput s,
          p_x = r_x r, p_y = c_y cached, p_yMin = c_yMin cached, p_yMax = c_yMax cached,
          p_xMin = r_xMin r, p_xMax = r_xMax r,
          p_label = ''Scenario '' @ toString (length (points s) + 1),
          p_mode = mode s, p_showNoise = False \<rparr>,
      SetActionInput '''', SetIntentInput '''', SetIsSimulating False]"
  by (simp add: onResult_def)

lemma onResult_fresh:
  "yCache s (actionKey s) = None \<Longrightarrow>
   onResult env s r =
     [PutYCache (actionKey s)
        \<lparr> c_y = r_y r, c_yMin = r_yMin r, c_yMax = r_yMax r,
          c_xMin = JUndefined, c_xMax = JUndefined \<rparr>,
      AppendPoint
        \<lparr> p_id = toString (Date_now env), p_action = actionInput s, p_intent = intentInput s,
          p_x = r_x r, p_y = r_y r, p_yMin = r_yMin r, p_yMax = r_yMax r,
          p_xMin = r_xMin r, p_xMax = r_xMax r,
          p_label = ''Scenario '' @ toString (length (points s) + 1),
          p_mode = mode s, p_showNoise = False \<rparr>,
      SetActionInput '''', SetIntentInput '''', SetIsSimulating False]"
  by (simp add: onResult_def)

lemma backoff_Suc: "backoff s (Suc k) = backoff s k @ [request s, Wait (2 ^ k * 1000)]"
  by (simp add: backoff_def)

lemma fold_perform_backoff: "fold perform (backoff s k) t = t"
  by (induction k) (simp_all add: backoff_Suc backoff_def request_def)

lemma filter_backoff_other:
  "filter isCacheWrite (backoff s k) = []" "filter isAppend (backoff s k) = []"
  "filter isErrorShown (backoff s k) = []"
  by (induction k) (simp_all add: backoff_Suc backoff_def request_def)

lemma analyzed_empty: "actionInput s = [] \<or> intentInput s = [] \<Longrightarrow> analyzed env s = s"
  by (simp add: analyzed_def handleAnalyze_def)

lemma analyzed_all_fail:
  assumes "actionInput s \<noteq> []" "intentInput s \<noteq> []" and "\<forall>n<3. isl (attempt env s n)"
  shows "analyzed env s =
    s\<lparr>isSimulating := False, error := Some ''AI Analysis failed. Please try again.''\<rparr>"
  by (simp add: analyzed_def handleAnalyze_all_fail [OF assms] fold_perform_backoff)

lemma analyzed_first_result:
  assumes "actionInput s \<noteq> []" "intentInput s \<noteq> []"
    and "k < 3" "\<forall>n<k. isl (attempt env s n)" "attempt env s k = Inr r"
  shows "analyzed env s = fold perform (onResult env s r) (s\<lparr>isSimulating := True, error := None\<rparr>)"
  by (simp add: analyzed_def handleAnalyze_first_result [OF assms] fold_perform_backoff request_def)

lemma points_analyzed_cached:
  assumes "actionInput s \<noteq> []" "intentInput s \<noteq> []"
    and "k < 3" "\<forall>n<k. isl (attempt env s n)" "attempt env s k = Inr r"
    and "yCache s (actionKey s) = Some cached"
  shows "points (analyzed env s) = points s @
      [\<lparr> p_id = toString (Date_now env), p_action = actionInput s, p_intent = intentInput s,
          p_x = r_x r, p_y = c_y cached, p_yMin = c_yMin cached, p_yMax = c_yMax cached,
          p_xMin = r_xMin r, p_xMax = r_xMax r,
          p_label = ''Scenario '' @ toString (length (points s) + 1),
          p_mode = mode s, p_showNoise = False \<rparr>]"
    and "yCache (analyzed env s) = yCache s"
  by (simp_all add: analyzed_first_result [OF assms(1-5)] onResult_cached [OF assms(6)])

lemma points_analyzed_fresh:
  assumes "actionInput s \<noteq> []" "intentInput s \<noteq> []"
    and "k < 3" "\<forall>n<k. isl (attempt env s n)" "attempt env s k = Inr r"
    and "yCache s (actionKey s) = None"
  shows "points (analyzed env s) = points s @
      [\<lparr> p_id = toString (Date_now env), p_action = actionInput s, p_intent = intentInput s,
          p_x = r_x r, p_y = r_y r, p_yMin = r_yMin r, p_yMax = r_yMax r,
          p_xMin = r_xMin r, p_xMax = r_xMax r,
          p_label = ''Scenario '' @ toString (length (points s) + 1),
          p_mode = mode s, p_showNoise = False \<rparr>]"
    and "yCache (analyzed env s) = (yCache s)(actionKey s \<mapsto>
        \<lparr> c_y = r_y r, c_yMin = r_yMin r, c_yMax = r_yMax r,
          c_xMin = JUndefined, c_xMax = JUndefined \<rparr>)"
  by (simp_all add: analyzed_first_result [OF assms(1-5)] onResult_fresh [OF assms(6)])

text \<open>A submission that appended a point got a result on some attempt.\<close>

lemma appended_result:
  assumes "points (analyzed env s) = points s @ [p]"
  shows "actionInput s \<noteq> [] \<and> intentInput s \<noteq> [] \<and>
    (\<exists>k<3. (\<forall>n<k. isl (attempt env s n)) \<and> (\<exists>r. attempt env s k = Inr r))"
proof -
  have ne: "actionInput s \<noteq> [] \<and> intentInput s \<noteq> []"
  proof (rule ccontr)
    assume "\<not> ?thesis"
    then have "analyzed env s = s" by (simp add: analyzed_empty)
    with assms show False by simp
  qed
  have "\<not> (\<forall>n<3. isl (attempt env s n))"
  proof
    assume "\<forall>n<3. isl (attempt env s n)"
    with ne have "points (analyzed env s) = points s" by (simp add: analyzed_all_fail)
    with assms show False by simp
  qed
  with first_result_or_none [of env s] ne show ?thesis by blast
qed

text \<open>No effect of the handler sets the mode.\<close>

lemma mode_fold_perform: "mode (fold perform es s) = mode s"
proof (induction es arbitrary: s)
  case Nil
  show ?case by simp
next
  case (Cons e es)
  show ?case by (cases e) (simp_all add: Cons.IH)
qed

lemma mode_analyzed: "mode (analyzed env s) = mode s"
  by (simp add: analyzed_def mode_fold_perform)

text \<open>Counting the requests of a trace.\<close>

lemma requests_backoff: "length (filter isRequest (backoff s k)) = k"
  by (induction k) (simp_all add: backoff_Suc backoff_def request_def)

lemma filter_onResult:
  "filter isRequest (onResult env s r) = []"
  "filter isErrorShown (onResult env s r) = []"
  by (simp_all add: onResult_def split: option.split)

lemma requests_first_result:
  assumes "actionInput s \<noteq> []" "intentInput s \<noteq> []"
    and "k < 3" "\<forall>n<k. isl (attempt env s n)" "attempt env s k = Inr r"
  shows "length (filter isRequest (handleAnalyze env s)) = Suc k"
  by (simp add: handleAnalyze_first_result [OF assms] requests_backoff filter_onResult request_def)

text \<open>The cache writes of a trace, and the cache after \<^verbatim>\<open>clearCache\<close>.\<close>

lemma writes_first_result:
  assumes "actionInput s \<noteq> []" "intentInput s \<noteq> []"
    and "k < 3" "\<forall>n<k. isl (attempt env s n)" "attempt env s k = Inr r"
  shows "filter isCacheWrite (handleAnalyze env s) = filter isCacheWrite (onResult env s r)"
  by (simp add: handleAnalyze_first_result [OF assms] filter_backoff_other request_def)

lemma yCache_clearCache: "yCache (setInputs a b (clearCache s)) k = None"
  by (simp add: setInputs_def clearCache_def)

text \<open>The requests and timers of a trace; a first failure is followed by a second request.\<close>

lemma network_backoff: "filter isNetwork (backoff s k) = backoff s k"
  by (induction k) (simp_all add: backoff_Suc backoff_def request_def)

lemma network_onResult: "filter isNetwork (onResult env s r) = []"
  by (simp add: onResult_def split: option.split)

lemma retried_after_failure:
  assumes ne: "actionInput s \<noteq> []" "intentInput s \<noteq> []" and f0: "isl (attempt env s 0)"
  shows "\<exists>rest. handleAnalyze env s =
      SetIsSimulating True # SetError None # request s # Wait 1000 # request s # rest"
proof -
  from first_result_or_none [of env s]
  consider (result) k r where "k < 3" "\<forall>n<k. isl (attempt env s n)" "attempt env s k = Inr r"
    | (none) "\<forall>n<3. isl (attempt env s n)"
    by blast
  then show ?thesis
  proof cases
    case result
    have "k \<noteq> 0"
    proof
      assume "k = 0"
      with f0 result(3) show False by simp
    qed
    with result(1) consider "k = 1" | "k = 2" by arith
    then show ?thesis
    proof cases
      case 1
      from handleAnalyze_first_result [OF ne result, unfolded 1 backoff_1] show ?thesis
        by simp
    next
      case 2
      from handleAnalyze_first_result [OF ne result, unfolded 2 backoff_2] show ?thesis
        by simp
    qed
  next
    case none
    from handleAnalyze_all_fail [OF ne this, unfolded backoff_3] show ?thesis
      by simp
  qed
qed

section \<open>The example scenarios, evaluated\<close>

lemma attempt_answering:
  assumes "t \<noteq> []" "\<not> nullish v"
  shows "attempt (answering t v now) s n =
    Inr \<lparr> r_x = getProp ''x'' v, r_y = getProp ''y'' v, r_yMin = getProp ''y_min'' v,
          r_yMax = getProp ''y_max'' v, r_xMin = getProp ''x_min'' v,
          r_xMax = getProp ''x_max'' v \<rparr>"
  using assms
  by (simp add: attempt_def callGeminiAPI_def answering_def modelReply_def resultTextOf_def
      optChain_def parsesTo_def)

lemma attempt_offline: "attempt offline s n = Inl NetworkFailure"
  by (simp add: attempt_def callGeminiAPI_def offline_def)

lemma attempt_flaky:
  assumes "t \<noteq> []" "\<not> nullish v"
  shows "attempt (flaky t v now) s 0 = Inl NetworkFailure"
    and "attempt (flaky t v now) s 1 = Inl (ApiStatus 503)"
    and "attempt (flaky t v now) s 2 =
      Inr \<lparr> r_x = getProp ''x'' v, r_y = getProp ''y'' v, r_yMin = getProp ''y_min'' v,
            r_yMax = getProp ''y_max'' v, r_xMin = getProp ''x_min'' v,
            r_xMax = getProp ''x_max'' v \<rparr>"
  using assms
  by (simp_all add: attempt_def callGeminiAPI_def flaky_def modelReply_def resultTextOf_def
      optChain_def parsesTo_def)

lemma example_texts: "fullText \<noteq> []" "otherText \<noteq> []" "bareText \<noteq> []"
  by (simp_all add: fullText_def otherText_def bareText_def)

lemma example_values: "\<not> nullish fullValue" "\<not> nullish otherValue" "\<not> nullish bareValue"
  by (simp_all add: fullValue_def otherValue_def bareValue_def)

lemma key_abort: "toLowerCase (trim ''I abort my child'') = ''i abort my child''"
  by code_simp

lemma key_is_normalised: "toLowerCase (trim '' I steal BREAD  '') = ''i steal bread''"
  by code_simp

lemma digit_chars:
  "char_of (48::nat) = CHR ''0''" "char_of (49::nat) = CHR ''1''" "char_of (50::nat) = CHR ''2''"
  "char_of (51::nat) = CHR ''3''" "char_of (52::nat) = CHR ''4''" "char_of (53::nat) = CHR ''5''"
  "char_of (54::nat) = CHR ''6''" "char_of (55::nat) = CHR ''7''" "char_of (56::nat) = CHR ''8''"
  "char_of (57::nat) = CHR ''9''"
  by code_simp+

lemma clock_1: "toString 1730000000000 = ''1730000000000''"
  by (simp add: toString.simps digit_chars)

lemma clock_2: "toString 1730000060000 = ''1730000060000''"
  by (simp add: toString.simps digit_chars)

lemma label_2: "toString 2 = ''2''"
  by (simp add: toString.simps digit_chars)

lemma label_3: "toString 3 = ''3''"
  by (simp add: toString.simps digit_chars)

lemma key_steal: "toLowerCase (trim ''I steal bread'') = ''i steal bread''"
  by code_simp

lemma key_abortAgain: "actionKey abortAgain = ''seismograph:i abort my child''"
  by (simp add: actionKey_def abortAgain_def setInputs_def initialState_def key_abort)

lemma key_breadFirst: "actionKey breadFirst = ''seismograph:i steal bread''"
  by (simp add: actionKey_def breadFirst_def setInputs_def initialState_def key_steal)

lemma key_breadAgain: "actionKey breadAgain = ''seismograph:i steal bread''"
  by (simp add: actionKey_def breadAgain_def setInputs_def mode_analyzed key_steal)
     (simp add: breadFirst_def setInputs_def initialState_def)

lemma full_result:
  "attempt (answering fullText fullValue now) s n =
     Inr \<lparr> r_x = JNum 0.4, r_y = JNum 0.7, r_yMin = JNum 0.5, r_yMax = JNum 0.9,
           r_xMin = JNum 0.1, r_xMax = JNum 0.6 \<rparr>"
  by (simp add: attempt_answering example_texts example_values) (simp add: fullValue_def)

lemma other_result:
  "attempt (answering otherText otherValue now) s n =
     Inr \<lparr> r_x = JNum (- 0.9), r_y = JNum (- 1), r_yMin = JNum (- 1), r_yMax = JNum (- 0.95),
           r_xMin = JNum (- 1), r_xMax = JNum (- 0.8) \<rparr>"
  by (simp add: attempt_answering example_texts example_values) (simp add: otherValue_def)

lemma cache_abortAgain:
  "yCache abortAgain (actionKey abortAgain) =
     Some \<lparr> c_y = JNum (- 0.3), c_yMin = JNum (- 0.8), c_yMax = JNum 0.2,
            c_xMin = JNum 0.85, c_xMax = JNum 1 \<rparr>"
  by (simp add: key_abortAgain) (simp add: abortAgain_def setInputs_def initialState_def)

lemma cache_breadFirst: "yCache breadFirst (actionKey breadFirst) = None"
  by (simp add: key_breadFirst) (simp add: breadFirst_def setInputs_def initialState_def)

lemma inputs_examples:
  "actionInput abortAgain \<noteq> []" "intentInput abortAgain \<noteq> []"
  "actionInput breadFirst \<noteq> []" "intentInput breadFirst \<noteq> []"
  "actionInput breadAgain \<noteq> []" "intentInput breadAgain \<noteq> []"
  by (simp_all add: abortAgain_def breadFirst_def breadAgain_def setInputs_def)

lemma label_2_Suc: "toString (Suc (Suc 0)) = ''2''"
  using label_2 by (simp add: numeral_2_eq_2)

lemma at_once: "(0::nat) < 3" "\<forall>n<(0::nat). isl (attempt env s n)"
  by simp_all

lemma points_abortAgain:
  "points (analyzed (answering otherText otherValue 1730000060000) abortAgain) =
     points abortAgain @ [abortAgainPoint]"
  by (simp add: points_analyzed_cached(1)
        [OF inputs_examples(1,2) at_once other_result cache_abortAgain])
     (simp add: answering_def clock_2 abortAgainPoint_def abortAgain_def setInputs_def
        initialState_def label_2_Suc)

lemma points_breadFirst:
  "points (analyzed (answering fullText fullValue 1730000000000) breadFirst) =
     points breadFirst @ [breadFirstPoint]"
  by (simp add: points_analyzed_fresh(1)
        [OF inputs_examples(3,4) at_once full_result cache_breadFirst])
     (simp add: answering_def clock_1 breadFirstPoint_def breadFirst_def setInputs_def
        initialState_def label_2_Suc)

lemma cache_after_breadFirst:
  "yCache (analyzed (answering fullText fullValue 1730000000000) breadFirst) =
     (yCache breadFirst)(''seismograph:i steal bread'' \<mapsto>
       \<lparr> c_y = JNum 0.7, c_yMin = JNum 0.5, c_yMax = JNum 0.9,
         c_xMin = JUndefined, c_xMax = JUndefined \<rparr>)"
  by (simp add: points_analyzed_fresh(2)
        [OF inputs_examples(3,4) at_once full_result cache_breadFirst] key_breadFirst)

lemma cache_breadAgain:
  "yCache breadAgain (actionKey breadAgain) =
     Some \<lparr> c_y = JNum 0.7, c_yMin = JNum 0.5, c_yMax = JNum 0.9,
            c_xMin = JUndefined, c_xMax = JUndefined \<rparr>"
  by (simp add: key_breadAgain) (simp add: breadAgain_def setInputs_def cache_after_breadFirst)

lemma length_points_breadAgain: "length (points breadAgain) = 2"
  by (simp add: breadAgain_def setInputs_def points_breadFirst)
     (simp add: breadFirst_def setInputs_def initialState_def)

lemma points_breadAgain:
  "points (analyzed (answering otherText otherValue 1730000060000) breadAgain) =
     points breadAgain @ [breadAgainPoint]"
  by (simp add: points_analyzed_cached(1)
        [OF inputs_examples(5,6) at_once other_result cache_breadAgain]
        length_points_breadAgain)
     (simp add: answering_def clock_2 breadAgainPoint_def label_3 mode_analyzed
        breadAgain_def setInputs_def breadFirst_def initialState_def)

lemma inputs_abortAfterClear:
  "actionInput abortAfterClear \<noteq> []" "intentInput abortAfterClear \<noteq> []"
  by (simp_all add: abortAfterClear_def setInputs_def)

lemma cache_abortAfterClear: "yCache abortAfterClear (actionKey abortAfterClear) = None"
  by (simp add: abortAfterClear_def yCache_clearCache)

lemma points_abortAfterClear:
  "points (analyzed (answering otherText otherValue 1730000060000) abortAfterClear) =
     points abortAfterClear @ [abortAfterClearPoint]"
  by (simp add: points_analyzed_fresh(1)
        [OF inputs_abortAfterClear at_once other_result cache_abortAfterClear])
     (simp add: answering_def clock_2 abortAfterClearPoint_def abortAfterClear_def
        setInputs_def clearCache_def initialState_def label_2_Suc)

lemma points_twoPoints: "points twoPoints = points initialState @ [breadFirstPoint]"
  by (simp add: twoPoints_def points_breadFirst) (simp add: breadFirst_def setInputs_def)

lemma trace_offline:
  "handleAnalyze offline breadFirst =
     [SetIsSimulating True, SetError None,
      Fetch seismograph ''I steal bread'' ''To feed my family'', Wait 1000,
      Fetch seismograph ''I steal bread'' ''To feed my family'', Wait 2000,
      Fetch seismograph ''I steal bread'' ''To feed my family'', Wait 4000,
      SetError (Some ''AI Analysis failed. Please try again.''), SetIsSimulating False]"
proof -
  have "\<forall>n<3. isl (attempt offline breadFirst n)" by (simp add: attempt_offline)
  from handleAnalyze_all_fail [OF inputs_examples(3,4) this] show ?thesis
    by (simp add: backoff_3 request_def) (simp add: breadFirst_def setInputs_def initialState_def)
qed

lemma trace_flaky:
  "filter isNetwork (handleAnalyze (flaky fullText fullValue 1730000000000) breadFirst) =
     [Fetch seismograph ''I steal bread'' ''To feed my family'', Wait 1000,
      Fetch seismograph ''I steal bread'' ''To feed my family'', Wait 2000,
      Fetch seismograph ''I steal bread'' ''To feed my family'']"
proof -
  note f = attempt_flaky [OF example_texts(1) example_values(1), of 1730000000000 breadFirst]
  have two: "(2::nat) < 3" by simp
  have fails: "\<forall>n<2. isl (attempt (flaky fullText fullValue 1730000000000) breadFirst n)"
  proof (intro allI impI)
    fix n :: nat assume "n < 2"
    then have "n = 0 \<or> n = 1" by arith
    with f(1,2) show "isl (attempt (flaky fullText fullValue 1730000000000) breadFirst n)"
      by auto
  qed
  from handleAnalyze_first_result [OF inputs_examples(3,4) two fails f(3)] show ?thesis
    by (simp add: backoff_2 network_onResult request_def)
       (simp add: breadFirst_def setInputs_def initialState_def)
qed

lemma bare_result:
  "attempt (answering bareText bareValue now) s n =
     Inr \<lparr> r_x = JNum 0.5, r_y = JNum 0.25, r_yMin = JUndefined, r_yMax = JUndefined,
           r_xMin = JUndefined, r_xMax = JUndefined \<rparr>"
  by (simp add: attempt_answering example_texts example_values) (simp add: bareValue_def)

lemma trace_bare:
  "handleAnalyze (answering bareText bareValue 1730000000000) breadFirst =
     [SetIsSimulating True, SetError None,
      Fetch seismograph ''I steal bread'' ''To feed my family'',
      PutYCache ''seismograph:i steal bread''
        \<lparr> c_y = JNum 0.25, c_yMin = JUndefined, c_yMax = JUndefined,
          c_xMin = JUndefined, c_xMax = JUndefined \<rparr>,
      AppendPoint breadBarePoint,
      SetActionInput '''', SetIntentInput '''', SetIsSimulating False]"
  by (simp add: handleAnalyze_first_result [OF inputs_examples(3,4) at_once bare_result]
        backoff_0 onResult_fresh [OF cache_breadFirst] key_breadFirst request_def)
     (simp add: answering_def clock_1 breadBarePoint_def breadFirst_def setInputs_def
        initialState_def label_2_Suc)

lemma resultText_modelReply:
  "resp_json (modelReply t) = Some (JObj [(''candidates'',
      JArr [JObj [(''content'', JObj [(''parts'', JArr [JObj [(''text'', JStr t)]])])]])])"
  "resultTextOf (JObj [(''candidates'',
      JArr [JObj [(''content'', JObj [(''parts'', JArr [JObj [(''text'', JStr t)]])])]])]) =
    Inr (JStr t)"
  "resp_ok (modelReply t)"
  by (simp_all add: modelReply_def resultTextOf_def optChain_def)

section \<open>The cache override\<close>

lemma cached_overrides:
  assumes hit: "yCache s (actionKey s) = Some cached"
    and app: "points (analyzed env s) = points s @ [p]"
  shows "p_y p = c_y cached \<and> p_yMin p = c_yMin cached \<and> p_yMax p = c_yMax cached"
    and "yCache (analyzed env s) = yCache s"
proof -
  from appended_result [OF app] obtain k r
    where ne: "actionInput s \<noteq> []" "intentInput s \<noteq> []"
      and k: "k < 3" "\<forall>n<k. isl (attempt env s n)" "attempt env s k = Inr r"
    by blast
  note facts = points_analyzed_cached [OF ne k hit]
  from facts(1) app show "p_y p = c_y cached \<and> p_yMin p = c_yMin cached \<and> p_yMax p = c_yMax cached"
    by auto
  from facts(2) show "yCache (analyzed env s) = yCache s" .
qed

lemma fresh_is_stored:
  assumes miss: "yCache s (actionKey s) = None"
    and app: "points (analyzed env s) = points s @ [p]"
  shows "yCache (analyzed env s) (actionKey s) =
    Some \<lparr> c_y = p_y p, c_yMin = p_yMin p, c_yMax = p_yMax p,
           c_xMin = JUndefined, c_xMax = JUndefined \<rparr>"
proof -
  from appended_result [OF app] obtain k r
    where ne: "actionInput s \<noteq> []" "intentInput s \<noteq> []"
      and k: "k < 3" "\<forall>n<k. isl (attempt env s n)" "attempt env s k = Inr r"
    by blast
  note facts = points_analyzed_fresh [OF ne k miss]
  from facts(1) app have "p_y p = r_y r" "p_yMin p = r_yMin r" "p_yMax p = r_yMax r"
    by auto
  with facts(2) show ?thesis by simp
qed

text \<open>
  Claim C1. When the cache holds an entry for the key of the submission (the mode, a
  colon, the trimmed and lower-cased action text), the point a successful submission
  appends takes \<open>y\<close>, \<open>yMin\<close> and \<open>yMax\<close> from that entry, whatever the model returned.
  So when an action text is submitted a second time under the same mode, on the cache
  as the first submission left it, the second point has the \<open>y\<close>, \<open>yMin\<close> and
  \<open>yMax\<close> of the first, whatever the intent text and the second answer are.
\<close>

theorem cached_y_survives_resubmission:
  "(yCache s (actionKey s) = Some cached \<longrightarrow>
      points (analyzed env s) = points s @ [p] \<longrightarrow>
      p_y p = c_y cached \<and> p_yMin p = c_yMin cached \<and> p_yMax p = c_yMax cached)
   \<and>
   (points (analyzed env1 s1) = points s1 @ [p1] \<longrightarrow>
      yCache s2 = yCache (analyzed env1 s1) \<longrightarrow>
      mode s2 = mode s1 \<longrightarrow> actionInput s2 = actionInput s1 \<longrightarrow>
      points (analyzed env2 s2) = points s2 @ [p2] \<longrightarrow>
      p_y p2 = p_y p1 \<and> p_yMin p2 = p_yMin p1 \<and> p_yMax p2 = p_yMax p1)"
proof (rule conjI)
  show "yCache s (actionKey s) = Some cached \<longrightarrow>
      points (analyzed env s) = points s @ [p] \<longrightarrow>
      p_y p = c_y cached \<and> p_yMin p = c_yMin cached \<and> p_yMax p = c_yMax cached"
    using cached_overrides(1) [of s cached env p] by blast
next
  show "points (analyzed env1 s1) = points s1 @ [p1] \<longrightarrow>
      yCache s2 = yCache (analyzed env1 s1) \<longrightarrow>
      mode s2 = mode s1 \<longrightarrow> actionInput s2 = actionInput s1 \<longrightarrow>
      points (analyzed env2 s2) = points s2 @ [p2] \<longrightarrow>
      p_y p2 = p_y p1 \<and> p_yMin p2 = p_yMin p1 \<and> p_yMax p2 = p_yMax p1"
  proof (intro impI)
    assume first: "points (analyzed env1 s1) = points s1 @ [p1]"
      and cache: "yCache s2 = yCache (analyzed env1 s1)"
      and same: "mode s2 = mode s1" "actionInput s2 = actionInput s1"
      and second: "points (analyzed env2 s2) = points s2 @ [p2]"
    from same have key: "actionKey s2 = actionKey s1" by (simp add: actionKey_def)
    show "p_y p2 = p_y p1 \<and> p_yMin p2 = p_yMin p1 \<and> p_yMax p2 = p_yMax p1"
    proof (cases "yCache s1 (actionKey s1)")
      case None
      from fresh_is_stored [OF None first] cache key
      have "yCache s2 (actionKey s2) =
        Some \<lparr> c_y = p_y p1, c_yMin = p_yMin p1, c_yMax = p_yMax p1,
               c_xMin = JUndefined, c_xMax = JUndefined \<rparr>"
        by simp
      from cached_overrides(1) [OF this second] show ?thesis by simp
    next
      case (Some c)
      from cached_overrides(2) [OF Some first] cache key Some
      have hit: "yCache s2 (actionKey s2) = Some c" by simp
      from cached_overrides(1) [OF Some first] cached_overrides(1) [OF hit second]
      show ?thesis by simp
    qed
  qed
qed

theorem cached_y_survives_resubmission_witness:
  "yCache abortAgain (actionKey abortAgain) =
     Some \<lparr> c_y = JNum (- 0.3), c_yMin = JNum (- 0.8), c_yMax = JNum 0.2,
            c_xMin = JNum 0.85, c_xMax = JNum 1 \<rparr>
   \<and> points (analyzed (answering otherText otherValue 1730000060000) abortAgain) =
       points abortAgain @ [abortAgainPoint]
   \<and> p_y abortAgainPoint = JNum (- 0.3) \<and> p_yMin abortAgainPoint = JNum (- 0.8)
   \<and> p_yMax abortAgainPoint = JNum 0.2
   \<and> points (analyzed (answering fullText fullValue 1730000000000) breadFirst) =
       points breadFirst @ [breadFirstPoint]
   \<and> yCache breadAgain = yCache (analyzed (answering fullText fullValue 1730000000000) breadFirst)
   \<and> mode breadAgain = mode breadFirst
   \<and> actionInput breadAgain = actionInput breadFirst
   \<and> points (analyzed (answering otherText otherValue 1730000060000) breadAgain) =
       points breadAgain @ [breadAgainPoint]
   \<and> p_y breadAgainPoint = p_y breadFirstPoint
   \<and> p_yMin breadAgainPoint = p_yMin breadFirstPoint
   \<and> p_yMax breadAgainPoint = p_yMax breadFirstPoint"
proof -
  have same: "yCache breadAgain = yCache (analyzed (answering fullText fullValue 1730000000000) breadFirst)"
    "mode breadAgain = mode breadFirst" "actionInput breadAgain = actionInput breadFirst"
    by (simp_all add: breadAgain_def setInputs_def mode_analyzed breadFirst_def)
  from cached_y_survives_resubmission
    [of abortAgain
      "\<lparr> c_y = JNum (- 0.3), c_yMin = JNum (- 0.8), c_yMax = JNum 0.2,
         c_xMin = JNum 0.85, c_xMax = JNum 1 \<rparr>"
      "answering otherText otherValue 1730000060000" abortAgainPoint
      "answering fullText fullValue 1730000000000" breadFirst breadFirstPoint
      breadAgain "answering otherText otherValue 1730000060000" breadAgainPoint]
  show ?thesis
    using cache_abortAgain points_abortAgain points_breadFirst points_breadAgain same
    by simp
qed

section \<open>The x-coordinate\<close>

text \<open>
  Claim C2. A submission that appends a point got a result on one of its three
  attempts, after failures only; that attempt sent the last request of the submission,
  and the point's \<open>x\<close>, \<open>xMin\<close> and \<open>xMax\<close> are those of its result. Nothing is
  assumed of the cache: a cached entry never replaces a value on the x-axis.
\<close>

theorem x_is_always_fresh:
  assumes "points (analyzed env s) = points s @ [p]"
  shows "\<exists>k<3. \<exists>r. (\<forall>n<k. isl (attempt env s n)) \<and> attempt env s k = Inr r
      \<and> length (filter isRequest (handleAnalyze env s)) = Suc k
      \<and> p_x p = r_x r \<and> p_xMin p = r_xMin r \<and> p_xMax p = r_xMax r"
proof -
  from appended_result [OF assms] obtain k r
    where ne: "actionInput s \<noteq> []" "intentInput s \<noteq> []"
      and k: "k < 3" "\<forall>n<k. isl (attempt env s n)" "attempt env s k = Inr r"
    by blast
  have "p_x p = r_x r \<and> p_xMin p = r_xMin r \<and> p_xMax p = r_xMax r"
  proof (cases "yCache s (actionKey s)")
    case None
    from points_analyzed_fresh(1) [OF ne k None] assms show ?thesis by auto
  next
    case (Some cached)
    from points_analyzed_cached(1) [OF ne k Some] assms show ?thesis by auto
  qed
  with k requests_first_result [OF ne k] show ?thesis by blast
qed

theorem x_is_always_fresh_witness:
  "points (analyzed (answering otherText otherValue 1730000060000) abortAgain) =
     points abortAgain @ [abortAgainPoint]
   \<and> c_xMin (the (yCache abortAgain (actionKey abortAgain))) = JNum 0.85
   \<and> p_x abortAgainPoint = JNum (- 0.9) \<and> p_xMin abortAgainPoint = JNum (- 1)
   \<and> p_xMax abortAgainPoint = JNum (- 0.8)
   \<and> (\<exists>k<3. \<exists>r.
        (\<forall>n<k. isl (attempt (answering otherText otherValue 1730000060000) abortAgain n))
        \<and> attempt (answering otherText otherValue 1730000060000) abortAgain k = Inr r
        \<and> length (filter isRequest
             (handleAnalyze (answering otherText otherValue 1730000060000) abortAgain)) = Suc k
        \<and> p_x abortAgainPoint = r_x r \<and> p_xMin abortAgainPoint = r_xMin r
        \<and> p_xMax abortAgainPoint = r_xMax r)"
  using x_is_always_fresh [OF points_abortAgain] points_abortAgain cache_abortAgain
  by (simp add: abortAgainPoint_def)

section \<open>Failed attempts and partial payloads\<close>

text \<open>
  Claim C3, as amended. An attempt fails when the request is rejected, when the status
  is not OK, when the body is not JSON, when the result text is missing or empty, and
  when the text does not parse; a first failed attempt is followed by a wait of one
  second and a second request. A payload that parses to an object with \<open>x\<close> and
  \<open>y\<close> is accepted whether or not it has \<open>y_min\<close>, \<open>y_max\<close>, \<open>x_min\<close> and
  \<open>x_max\<close>: the result holds each bound the payload has and \<open>undefined\<close> for each
  it lacks.
\<close>

theorem failures_are_retried_bounds_are_optional:
  "(fetch env n (m, a, i) = None \<longrightarrow> callGeminiAPI env n a i m = Inl NetworkFailure)
   \<and> (fetch env n (m, a, i) = Some resp \<longrightarrow> \<not> resp_ok resp \<longrightarrow>
        callGeminiAPI env n a i m = Inl (ApiStatus (resp_status resp)))
   \<and> (fetch env n (m, a, i) = Some resp \<longrightarrow> resp_ok resp \<longrightarrow> resp_json resp = None \<longrightarrow>
        callGeminiAPI env n a i m = Inl BodyNotJson)
   \<and> (fetch env n (m, a, i) = Some resp \<longrightarrow> resp_ok resp \<longrightarrow> resp_json resp = Some body \<longrightarrow>
        resultTextOf body = Inr t \<longrightarrow> falsy t \<longrightarrow>
        callGeminiAPI env n a i m = Inl NoAnalysis)
   \<and> (fetch env n (m, a, i) = Some resp \<longrightarrow> resp_ok resp \<longrightarrow> resp_json resp = Some body \<longrightarrow>
        resultTextOf body = Inr t \<longrightarrow> \<not> falsy t \<longrightarrow> JSON_parse env t = None \<longrightarrow>
        callGeminiAPI env n a i m = Inl TextNotJson)
   \<and> (fetch env n (m, a, i) = Some resp \<longrightarrow> resp_ok resp \<longrightarrow> resp_json resp = Some body \<longrightarrow>
        resultTextOf body = Inr t \<longrightarrow> \<not> falsy t \<longrightarrow> JSON_parse env t = Some (JObj props) \<longrightarrow>
        map_of props ''x'' = Some vx \<longrightarrow> map_of props ''y'' = Some vy \<longrightarrow>
        callGeminiAPI env n a i m =
          Inr \<lparr> r_x = vx, r_y = vy,
                r_yMin = (case map_of props ''y_min'' of Some v \<Rightarrow> v | None \<Rightarrow> JUndefined),
                r_yMax = (case map_of props ''y_max'' of Some v \<Rightarrow> v | None \<Rightarrow> JUndefined),
                r_xMin = (case map_of props ''x_min'' of Some v \<Rightarrow> v | None \<Rightarrow> JUndefined),
                r_xMax = (case map_of props ''x_max'' of Some v \<Rightarrow> v | None \<Rightarrow> JUndefined) \<rparr>)
   \<and> (actionInput s \<noteq> [] \<longrightarrow> intentInput s \<noteq> [] \<longrightarrow> isl (attempt env s 0) \<longrightarrow>
        (\<exists>rest. handleAnalyze env s =
           SetIsSimulating True # SetError None # request s # Wait 1000 # request s # rest))"
proof (intro conjI)
  show "actionInput s \<noteq> [] \<longrightarrow> intentInput s \<noteq> [] \<longrightarrow> isl (attempt env s 0) \<longrightarrow>
        (\<exists>rest. handleAnalyze env s =
           SetIsSimulating True # SetError None # request s # Wait 1000 # request s # rest)"
    using retried_after_failure [of s env] by blast
qed (simp_all add: callGeminiAPI_def)

text \<open>
  The claim as stated fails on an answer without bounds: the text parses, the object
  lacks \<open>y_min\<close>, \<open>y_max\<close>, \<open>x_min\<close> and \<open>x_max\<close>, and the first attempt
  resolves; the handler sends one request, awaits no timer, and writes a cache entry
  and a point whose bounds are undefined.
\<close>

theorem partial_payload_counterexample:
  "JSON_parse (answering bareText bareValue 1730000000000) (JStr bareText) =
     Some (JObj [(''x'', JNum 0.5), (''y'', JNum 0.25)])
   \<and> callGeminiAPI (answering bareText bareValue 1730000000000) 0
        ''I steal bread'' ''To feed my family'' seismograph =
       Inr \<lparr> r_x = JNum 0.5, r_y = JNum 0.25, r_yMin = JUndefined, r_yMax = JUndefined,
             r_xMin = JUndefined, r_xMax = JUndefined \<rparr>
   \<and> handleAnalyze (answering bareText bareValue 1730000000000) breadFirst =
       [SetIsSimulating True, SetError None,
        Fetch seismograph ''I steal bread'' ''To feed my family'',
        PutYCache ''seismograph:i steal bread''
          \<lparr> c_y = JNum 0.25, c_yMin = JUndefined, c_yMax = JUndefined,
            c_xMin = JUndefined, c_xMax = JUndefined \<rparr>,
        AppendPoint breadBarePoint,
        SetActionInput '''', SetIntentInput '''', SetIsSimulating False]
   \<and> p_yMin breadBarePoint = JUndefined \<and> p_xMax breadBarePoint = JUndefined"
  using bare_result [of 1730000000000 breadFirst 0]
  by (simp add: trace_bare)
     (simp add: answering_def parsesTo_def bareValue_def attempt_def breadFirst_def
        setInputs_def initialState_def breadBarePoint_def)

text \<open>Each case of the amended claim, on an example.\<close>

theorem failures_are_retried_bounds_are_optional_witness:
  "fetch offline 0 (seismograph, ''I steal bread'', ''To feed my family'') = None
   \<and> callGeminiAPI offline 0 ''I steal bread'' ''To feed my family'' seismograph =
       Inl NetworkFailure
   \<and> callGeminiAPI (flaky fullText fullValue 0) 1 ''I steal bread'' ''To feed my family''
        seismograph = Inl (ApiStatus 503)
   \<and> callGeminiAPI unreadable 0 ''I steal bread'' ''To feed my family'' seismograph =
       Inl BodyNotJson
   \<and> callGeminiAPI (babbling []) 0 ''I steal bread'' ''To feed my family'' seismograph =
       Inl NoAnalysis
   \<and> JSON_parse (babbling ''I cannot weigh this'') (JStr ''I cannot weigh this'') = None
   \<and> callGeminiAPI (babbling ''I cannot weigh this'') 0 ''I steal bread''
        ''To feed my family'' seismograph = Inl TextNotJson
   \<and> JSON_parse (answering bareText bareValue 0) (JStr bareText) =
       Some (JObj [(''x'', JNum 0.5), (''y'', JNum 0.25)])
   \<and> callGeminiAPI (answering bareText bareValue 0) 0 ''I steal bread''
        ''To feed my family'' seismograph =
       Inr \<lparr> r_x = JNum 0.5, r_y = JNum 0.25, r_yMin = JUndefined, r_yMax = JUndefined,
             r_xMin = JUndefined, r_xMax = JUndefined \<rparr>
   \<and> isl (attempt offline breadFirst 0)
   \<and> (\<exists>rest. handleAnalyze offline breadFirst =
         SetIsSimulating True # SetError None # request breadFirst # Wait 1000 #
         request breadFirst # rest)"
proof -
  let ?a = "''I steal bread''" and ?i = "''To feed my family''"
  note inst = failures_are_retried_bounds_are_optional [where a = ?a and i = ?i and m = seismograph]
  have "callGeminiAPI offline 0 ?a ?i seismograph = Inl NetworkFailure"
    using inst [where env = offline and n = 0] by (simp add: offline_def)
  moreover have "callGeminiAPI (flaky fullText fullValue 0) 1 ?a ?i seismograph =
      Inl (ApiStatus 503)"
    using inst [where env = "flaky fullText fullValue 0" and n = 1
        and resp = "\<lparr> resp_ok = False, resp_status = 503, resp_json = None \<rparr>"]
    by (simp add: flaky_def)
  moreover have "callGeminiAPI unreadable 0 ?a ?i seismograph = Inl BodyNotJson"
    using inst [where env = unreadable and n = 0
        and resp = "\<lparr> resp_ok = True, resp_status = 200, resp_json = None \<rparr>"]
    by (simp add: unreadable_def)
  moreover have "callGeminiAPI (babbling []) 0 ?a ?i seismograph = Inl NoAnalysis"
    using inst [where env = "babbling []" and n = 0 and resp = "modelReply []"
        and t = "JStr []"]
    by (simp add: babbling_def resultText_modelReply)
  moreover have "callGeminiAPI (babbling ''I cannot weigh this'') 0 ?a ?i seismograph =
      Inl TextNotJson"
    using inst [where env = "babbling ''I cannot weigh this''" and n = 0
        and resp = "modelReply ''I cannot weigh this''" and t = "JStr ''I cannot weigh this''"]
    by (simp add: babbling_def resultText_modelReply)
  moreover have "callGeminiAPI (answering bareText bareValue 0) 0 ?a ?i seismograph =
      Inr \<lparr> r_x = JNum 0.5, r_y = JNum 0.25, r_yMin = JUndefined, r_yMax = JUndefined,
            r_xMin = JUndefined, r_xMax = JUndefined \<rparr>"
    using inst [where env = "answering bareText bareValue 0" and n = 0
        and resp = "modelReply bareText" and t = "JStr bareText"
        and props = "[(''x'', JNum 0.5), (''y'', JNum 0.25)]" and vx = "JNum 0.5"
        and vy = "JNum 0.25"]
    by (simp add: answering_def resultText_modelReply parsesTo_def bareValue_def example_texts)
  moreover have "\<exists>rest. handleAnalyze offline breadFirst =
         SetIsSimulating True # SetError None # request breadFirst # Wait 1000 #
         request breadFirst # rest"
    using failures_are_retried_bounds_are_optional [where s = breadFirst and env = offline]
      inputs_examples(3,4)
    by (simp add: attempt_offline)
  ultimately show ?thesis
    by (simp add: attempt_offline) (simp add: offline_def babbling_def answering_def
        parsesTo_def bareValue_def)
qed

text \<open>
  Beyond the amended claim: no field is checked at all, so an object without \<open>x\<close> and
  \<open>y\<close> resolves too, every field undefined.
\<close>

lemma empty_object_is_accepted:
  "attempt (answering ''{}'' (JObj []) now) s n =
     Inr \<lparr> r_x = JUndefined, r_y = JUndefined, r_yMin = JUndefined, r_yMax = JUndefined,
           r_xMin = JUndefined, r_xMax = JUndefined \<rparr>"
  by (simp add: attempt_answering)

section \<open>The retry schedule\<close>

text \<open>
  Claim C4, as amended. A submission with both inputs filled sends at most three
  requests. With \<open>k\<close> the number of attempts that fail before the first result (three
  when there is none), its requests and timers are: after each failed attempt \<open>n\<close>,
  the third included, a wait of \<open>2 ^ n\<close> seconds, and a last request when \<open>k < 3\<close>.
  The failure message is shown exactly when all three attempts failed, and then after
  the wait of four seconds that follows the third.
\<close>

theorem retries_with_backoff:
  assumes "actionInput s \<noteq> []" "intentInput s \<noteq> []"
  shows "\<exists>k\<le>3. (\<forall>n<k. isl (attempt env s n)) \<and> (k < 3 \<longrightarrow> \<not> isl (attempt env s k))
      \<and> filter isNetwork (handleAnalyze env s) =
          backoff s k @ (if k < 3 then [request s] else [])
      \<and> length (filter isRequest (handleAnalyze env s)) \<le> 3
      \<and> filter isErrorShown (handleAnalyze env s) =
          (if k = 3 then [SetError (Some ''AI Analysis failed. Please try again.'')] else [])
      \<and> (k = 3 \<longrightarrow> handleAnalyze env s =
            SetIsSimulating True # SetError None # backoff s 3 @
              [SetError (Some ''AI Analysis failed. Please try again.''), SetIsSimulating False])"
proof -
  from first_result_or_none [of env s]
  consider (result) k r where "k < 3" "\<forall>n<k. isl (attempt env s n)" "attempt env s k = Inr r"
    | (none) "\<forall>n<3. isl (attempt env s n)"
    by blast
  then show ?thesis
  proof cases
    case result
    note trace = handleAnalyze_first_result [OF assms result]
    have "filter isNetwork (handleAnalyze env s) = backoff s k @ [request s]"
      by (simp add: trace network_backoff network_onResult request_def)
    moreover have "length (filter isRequest (handleAnalyze env s)) \<le> 3"
      using requests_first_result [OF assms result] result(1) by simp
    moreover have "filter isErrorShown (handleAnalyze env s) = []"
      by (simp add: trace filter_backoff_other filter_onResult request_def)
    moreover have "\<not> isl (attempt env s k)" using result(3) by simp
    ultimately show ?thesis using result(1,2) by (intro exI [of _ k]) simp
  next
    case none
    note trace = handleAnalyze_all_fail [OF assms none]
    have "filter isNetwork (handleAnalyze env s) = backoff s 3"
      by (simp add: trace network_backoff)
    moreover have "length (filter isRequest (handleAnalyze env s)) \<le> 3"
      by (simp add: trace requests_backoff)
    moreover have "filter isErrorShown (handleAnalyze env s) =
        [SetError (Some ''AI Analysis failed. Please try again.'')]"
      by (simp add: trace filter_backoff_other)
    ultimately show ?thesis using none trace by (intro exI [of _ 3]) simp
  qed
qed

text \<open>
  The claim as stated fails when no request gets through: after the third request the
  handler awaits the timer of four seconds, and only then shows the message.
\<close>

theorem no_wait_after_last_attempt_counterexample:
  "handleAnalyze offline breadFirst =
     [SetIsSimulating True, SetError None,
      Fetch seismograph ''I steal bread'' ''To feed my family'', Wait 1000,
      Fetch seismograph ''I steal bread'' ''To feed my family'', Wait 2000,
      Fetch seismograph ''I steal bread'' ''To feed my family'', Wait 4000,
      SetError (Some ''AI Analysis failed. Please try again.''), SetIsSimulating False]
   \<and> last (filter isNetwork (handleAnalyze offline breadFirst)) = Wait 4000"
  by (simp add: trace_offline)

text \<open>The schedule with three failures, and with two failures and a result.\<close>

theorem retries_with_backoff_witness:
  "actionInput breadFirst \<noteq> [] \<and> intentInput breadFirst \<noteq> []
   \<and> filter isNetwork (handleAnalyze offline breadFirst) =
       [Fetch seismograph ''I steal bread'' ''To feed my family'', Wait 1000,
        Fetch seismograph ''I steal bread'' ''To feed my family'', Wait 2000,
        Fetch seismograph ''I steal bread'' ''To feed my family'', Wait 4000]
   \<and> filter isNetwork (handleAnalyze (flaky fullText fullValue 1730000000000) breadFirst) =
       [Fetch seismograph ''I steal bread'' ''To feed my family'', Wait 1000,
        Fetch seismograph ''I steal bread'' ''To feed my family'', Wait 2000,
        Fetch seismograph ''I steal bread'' ''To feed my family'']
   \<and> (\<exists>k\<le>3. (\<forall>n<k. isl (attempt offline breadFirst n))
        \<and> (k < 3 \<longrightarrow> \<not> isl (attempt offline breadFirst k))
        \<and> filter isNetwork (handleAnalyze offline breadFirst) =
            backoff breadFirst k @ (if k < 3 then [request breadFirst] else [])
        \<and> length (filter isRequest (handleAnalyze offline breadFirst)) \<le> 3
        \<and> filter isErrorShown (handleAnalyze offline breadFirst) =
            (if k = 3 then [SetError (Some ''AI Analysis failed. Please try again.'')] else [])
        \<and> (k = 3 \<longrightarrow> handleAnalyze offline breadFirst =
              SetIsSimulating True # SetError None # backoff breadFirst 3 @
                [SetError (Some ''AI Analysis failed. Please try again.''),
                 SetIsSimulating False]))
   \<and> (\<exists>k\<le>3. (\<forall>n<k. isl (attempt (flaky fullText fullValue 1730000000000) breadFirst n))
        \<and> (k < 3 \<longrightarrow> \<not> isl (attempt (flaky fullText fullValue 1730000000000) breadFirst k))
        \<and> filter isNetwork (handleAnalyze (flaky fullText fullValue 1730000000000) breadFirst) =
            backoff breadFirst k @ (if k < 3 then [request breadFirst] else [])
        \<and> filter isErrorShown
             (handleAnalyze (flaky fullText fullValue 1730000000000) breadFirst) =
            (if k = 3 then [SetError (Some ''AI Analysis failed. Please try again.'')] else []))"
proof -
  from retries_with_backoff [OF inputs_examples(3,4), of offline]
  have "\<exists>k\<le>3. (\<forall>n<k. isl (attempt offline breadFirst n))
        \<and> (k < 3 \<longrightarrow> \<not> isl (attempt offline breadFirst k))
        \<and> filter isNetwork (handleAnalyze offline breadFirst) =
            backoff breadFirst k @ (if k < 3 then [request breadFirst] else [])
        \<and> length (filter isRequest (handleAnalyze offline breadFirst)) \<le> 3
        \<and> filter isErrorShown (handleAnalyze offline breadFirst) =
            (if k = 3 then [SetError (Some ''AI Analysis failed. Please try again.'')] else [])
        \<and> (k = 3 \<longrightarrow> handleAnalyze offline breadFirst =
              SetIsSimulating True # SetError None # backoff breadFirst 3 @
                [SetError (Some ''AI Analysis failed. Please try again.''),
                 SetIsSimulating False])" .
  moreover
  from retries_with_backoff [OF inputs_examples(3,4), of "flaky fullText fullValue 1730000000000"]
  have "\<exists>k\<le>3. (\<forall>n<k. isl (attempt (flaky fullText fullValue 1730000000000) breadFirst n))
        \<and> (k < 3 \<longrightarrow> \<not> isl (attempt (flaky fullText fullValue 1730000000000) breadFirst k))
        \<and> filter isNetwork (handleAnalyze (flaky fullText fullValue 1730000000000) breadFirst) =
            backoff breadFirst k @ (if k < 3 then [request breadFirst] else [])
        \<and> filter isErrorShown
             (handleAnalyze (flaky fullText fullValue 1730000000000) breadFirst) =
            (if k = 3 then [SetError (Some ''AI Analysis failed. Please try again.'')] else [])"
    by blast
  moreover have "filter isNetwork (handleAnalyze offline breadFirst) =
       [Fetch seismograph ''I steal bread'' ''To feed my family'', Wait 1000,
        Fetch seismograph ''I steal bread'' ''To feed my family'', Wait 2000,
        Fetch seismograph ''I steal bread'' ''To feed my family'', Wait 4000]"
    by (simp add: trace_offline)
  ultimately show ?thesis
    using inputs_examples(3,4) trace_flaky by blast
qed

section \<open>Three failures\<close>

text \<open>
  Claim C5. When the inputs are filled and all three attempts fail, the handler shows
  the one generic message once, after three requests; it appends no point and writes
  no cache entry, so the point store and the cache are as before.
\<close>

theorem three_failures_one_error:
  assumes "actionInput s \<noteq> []" "intentInput s \<noteq> []" and "\<forall>n<3. isl (attempt env s n)"
  shows "filter isErrorShown (handleAnalyze env s) =
      [SetError (Some ''AI Analysis failed. Please try again.'')]
    \<and> length (filter isRequest (handleAnalyze env s)) = 3
    \<and> filter isAppend (handleAnalyze env s) = []
    \<and> filter isCacheWrite (handleAnalyze env s) = []
    \<and> points (analyzed env s) = points s
    \<and> yCache (analyzed env s) = yCache s
    \<and> error (analyzed env s) = Some ''AI Analysis failed. Please try again.''
    \<and> isSimulating (analyzed env s) = False"
  by (simp add: handleAnalyze_all_fail [OF assms] analyzed_all_fail [OF assms]
      filter_backoff_other requests_backoff)

theorem three_failures_one_error_witness:
  "actionInput breadFirst \<noteq> [] \<and> intentInput breadFirst \<noteq> []
   \<and> isl (attempt offline breadFirst 0) \<and> isl (attempt offline breadFirst 1)
   \<and> isl (attempt offline breadFirst 2)
   \<and> filter isErrorShown (handleAnalyze offline breadFirst) =
       [SetError (Some ''AI Analysis failed. Please try again.'')]
   \<and> filter isAppend (handleAnalyze offline breadFirst) = []
   \<and> points (analyzed offline breadFirst) = points initialState
   \<and> yCache (analyzed offline breadFirst) = yCache initialState
   \<and> error (analyzed offline breadFirst) = Some ''AI Analysis failed. Please try again.''"
  using three_failures_one_error [of breadFirst offline] inputs_examples(3,4)
  by (simp add: attempt_offline) (simp add: breadFirst_def setInputs_def)

section \<open>The seeded cache\<close>

text \<open>What the handler writes to the cache holds no bound of the x-axis.\<close>

lemma written_entries_hold_no_x:
  assumes "PutYCache k e \<in> set (handleAnalyze env s)"
  shows "k = actionKey s \<and> c_xMin e = JUndefined \<and> c_xMax e = JUndefined"
proof -
  have res: "PutYCache k e \<in> set (onResult env s r) \<Longrightarrow>
      k = actionKey s \<and> c_xMin e = JUndefined \<and> c_xMax e = JUndefined" for r
    by (auto simp: onResult_def split: option.splits)
  have quiet: "PutYCache k e \<notin> set (backoff s j)" for j
    by (induction j) (simp_all add: backoff_Suc backoff_def request_def)
  from assms have ne: "actionInput s \<noteq> []" "intentInput s \<noteq> []"
    by (auto simp: handleAnalyze_empty)
  from first_result_or_none [of env s]
  consider (result) j r where "j < 3" "\<forall>n<j. isl (attempt env s n)" "attempt env s j = Inr r"
    | (none) "\<forall>n<3. isl (attempt env s n)"
    by blast
  then show ?thesis
  proof cases
    case result
    from assms have "PutYCache k e \<in> set (onResult env s r)"
      by (simp add: handleAnalyze_first_result [OF ne result] quiet request_def)
    then show ?thesis by (rule res)
  next
    case none
    from assms show ?thesis
      by (simp add: handleAnalyze_all_fail [OF ne none] quiet)
  qed
qed

text \<open>
  Claim C6, evaluated on the initial state. The seeded entry is keyed as a submission
  of the seeded action would key it, and beside \<open>y\<close>, \<open>yMin\<close> and \<open>yMax\<close> it holds
  \<open>xMin\<close> and \<open>xMax\<close>, the bounds of the seeded point on the x-axis.
\<close>

theorem seeded_cache_holds_x_bounds:
  "actionKey (setInputs ''I abort my child'' ''My life was in danger'' initialState) =
     ''seismograph:i abort my child''
   \<and> yCache initialState ''seismograph:i abort my child'' =
       Some \<lparr> c_y = JNum (- 0.3), c_yMin = JNum (- 0.8), c_yMax = JNum 0.2,
              c_xMin = JNum 0.85, c_xMax = JNum 1 \<rparr>
   \<and> map p_xMin (points initialState) = [JNum 0.85]
   \<and> map p_xMax (points initialState) = [JNum 1]"
  by (simp add: actionKey_def setInputs_def key_abort) (simp add: initialState_def)

section \<open>After the cache has been cleared\<close>

text \<open>
  Claim C7. After \<^verbatim>\<open>clearCache\<close> the cache has no entry for any key. A
  submission made then, once the inputs are filled, that appends a point got a result
  on one of its attempts; the point takes \<open>y\<close>, \<open>yMin\<close> and \<open>yMax\<close> from that
  result, the handler writes the cache once, under the key of the submission, and the
  cache then holds that one entry with the result's \<open>y\<close>, \<open>yMin\<close> and \<open>yMax\<close>.
\<close>

theorem cleared_cache_takes_new_y:
  assumes cleared: "s' = setInputs a b (clearCache s)"
    and app: "points (analyzed env s') = points s' @ [p]"
  shows "yCache s' (actionKey s') = None
    \<and> (\<exists>k<3. \<exists>r. (\<forall>n<k. isl (attempt env s' n)) \<and> attempt env s' k = Inr r
         \<and> p_y p = r_y r \<and> p_yMin p = r_yMin r \<and> p_yMax p = r_yMax r
         \<and> yCache (analyzed env s') =
             [actionKey s' \<mapsto>
                \<lparr> c_y = r_y r, c_yMin = r_yMin r, c_yMax = r_yMax r,
                  c_xMin = JUndefined, c_xMax = JUndefined \<rparr>]
         \<and> filter isCacheWrite (handleAnalyze env s') =
             [PutYCache (actionKey s')
                \<lparr> c_y = r_y r, c_yMin = r_yMin r, c_yMax = r_yMax r,
                  c_xMin = JUndefined, c_xMax = JUndefined \<rparr>])"
proof -
  have empty: "yCache s' = Map.empty"
    unfolding cleared by (simp add: setInputs_def clearCache_def)
  then have miss: "yCache s' (actionKey s') = None" by simp
  from appended_result [OF app] obtain k r
    where ne: "actionInput s' \<noteq> []" "intentInput s' \<noteq> []"
      and k: "k < 3" "\<forall>n<k. isl (attempt env s' n)" "attempt env s' k = Inr r"
    by blast
  note fresh = points_analyzed_fresh [OF ne k miss]
  from fresh(1) app have y: "p_y p = r_y r \<and> p_yMin p = r_yMin r \<and> p_yMax p = r_yMax r"
    by auto
  from fresh(2) empty have cache: "yCache (analyzed env s') =
      [actionKey s' \<mapsto>
         \<lparr> c_y = r_y r, c_yMin = r_yMin r, c_yMax = r_yMax r,
           c_xMin = JUndefined, c_xMax = JUndefined \<rparr>]"
    by simp
  have once: "filter isCacheWrite (handleAnalyze env s') =
      [PutYCache (actionKey s')
         \<lparr> c_y = r_y r, c_yMin = r_yMin r, c_yMax = r_yMax r,
           c_xMin = JUndefined, c_xMax = JUndefined \<rparr>]"
    by (simp add: writes_first_result [OF ne k] onResult_fresh [OF miss])
  from miss k y cache once show ?thesis by blast
qed

theorem cleared_cache_takes_new_y_witness:
  "abortAfterClear =
     setInputs ''I abort my child'' ''For the insurance money'' (clearCache initialState)
   \<and> c_y (the (yCache initialState ''seismograph:i abort my child'')) = JNum (- 0.3)
   \<and> points (analyzed (answering otherText otherValue 1730000060000) abortAfterClear) =
       points abortAfterClear @ [abortAfterClearPoint]
   \<and> yCache abortAfterClear (actionKey abortAfterClear) = None
   \<and> p_y abortAfterClearPoint = JNum (- 1) \<and> p_yMin abortAfterClearPoint = JNum (- 1)
   \<and> p_yMax abortAfterClearPoint = JNum (- 0.95)
   \<and> (\<exists>k<3. \<exists>r.
        (\<forall>n<k. isl (attempt (answering otherText otherValue 1730000060000) abortAfterClear n))
        \<and> attempt (answering otherText otherValue 1730000060000) abortAfterClear k = Inr r
        \<and> p_y abortAfterClearPoint = r_y r \<and> p_yMin abortAfterClearPoint = r_yMin r
        \<and> p_yMax abortAfterClearPoint = r_yMax r
        \<and> yCache (analyzed (answering otherText otherValue 1730000060000) abortAfterClear) =
            [actionKey abortAfterClear \<mapsto>
               \<lparr> c_y = r_y r, c_yMin = r_yMin r, c_yMax = r_yMax r,
                 c_xMin = JUndefined, c_xMax = JUndefined \<rparr>]
        \<and> filter isCacheWrite
             (handleAnalyze (answering otherText otherValue 1730000060000) abortAfterClear) =
            [PutYCache (actionKey abortAfterClear)
               \<lparr> c_y = r_y r, c_yMin = r_yMin r, c_yMax = r_yMax r,
                 c_xMin = JUndefined, c_xMax = JUndefined \<rparr>])"
  using cleared_cache_takes_new_y [OF abortAfterClear_def points_abortAfterClear]
    points_abortAfterClear
  by (simp add: abortAfterClear_def [symmetric]) (simp add: abortAfterClearPoint_def initialState_def)

section \<open>The point store\<close>

text \<open>
  Claim C8. \<^verbatim>\<open>removePoint\<close> changes nothing but the point store: the cache and
  every other cell are as before. The points that do not bear the identifier are all
  kept, unchanged and in their order, and they are all that is kept; where the
  identifiers of the store are distinct, at most one point goes.
\<close>

theorem removePoint_leaves_the_rest:
  "yCache (removePoint ident s) = yCache s
   \<and> removePoint ident s = s\<lparr>points := points (removePoint ident s)\<rparr>
   \<and> filter (\<lambda>q. p_id q \<noteq> ident) (points (removePoint ident s)) =
       filter (\<lambda>q. p_id q \<noteq> ident) (points s)
   \<and> (\<forall>q. q \<in> set (points (removePoint ident s)) \<longleftrightarrow> q \<in> set (points s) \<and> p_id q \<noteq> ident)
   \<and> (distinct (map p_id (points s)) \<longrightarrow>
        length (points s) \<le> Suc (length (points (removePoint ident s))))"
proof -
  have "distinct (map p_id ps) \<Longrightarrow> length ps \<le> Suc (length (filter (\<lambda>q. p_id q \<noteq> ident) ps))"
    for ps :: "MoralPoint list"
  proof (induction ps)
    case Nil
    show ?case by simp
  next
    case (Cons a ps)
    show ?case
    proof (cases "p_id a = ident")
      case True
      with Cons.prems have "\<forall>q\<in>set ps. p_id q \<noteq> ident" by (auto simp: image_iff)
      then have "filter (\<lambda>q. p_id q \<noteq> ident) ps = ps" by (simp add: filter_id_conv)
      with True show ?thesis by simp
    next
      case False
      with Cons show ?thesis by simp
    qed
  qed
  then show ?thesis by (auto simp: removePoint_def)
qed

theorem removePoint_leaves_the_rest_witness:
  "distinct (map p_id (points twoPoints))
   \<and> points twoPoints = points initialState @ [breadFirstPoint]
   \<and> points (removePoint ''1'' twoPoints) = [breadFirstPoint]
   \<and> yCache (removePoint ''1'' twoPoints) = yCache twoPoints
   \<and> length (points twoPoints) \<le> Suc (length (points (removePoint ''1'' twoPoints)))
   \<and> points (removePoint ''7'' twoPoints) = points twoPoints"
  using removePoint_leaves_the_rest [of "''1''" twoPoints]
  by (simp add: points_twoPoints removePoint_def)
     (simp add: initialState_def breadFirstPoint_def)

text \<open>
  Claim C9. Toggling the uncertainty flag twice by the same identifier gives the state
  back. One toggle changes nothing but the point store, keeps every point in place
  with every field other than \<open>showNoise\<close> as it was (whatever value \<open>b\<close> the flag
  is then set to, the stores agree), flips the flag of the points that bear the
  identifier and leaves the other points as they are.
\<close>

theorem toggleNoise_twice:
  "toggleNoise ident (toggleNoise ident s) = s
   \<and> toggleNoise ident s = s\<lparr>points := points (toggleNoise ident s)\<rparr>
   \<and> map (\<lambda>q. q\<lparr>p_showNoise := b\<rparr>) (points (toggleNoise ident s)) =
       map (\<lambda>q. q\<lparr>p_showNoise := b\<rparr>) (points s)
   \<and> map p_showNoise (points (toggleNoise ident s)) =
       map (\<lambda>q. if p_id q = ident then \<not> p_showNoise q else p_showNoise q) (points s)
   \<and> filter (\<lambda>q. p_id q \<noteq> ident) (points (toggleNoise ident s)) =
       filter (\<lambda>q. p_id q \<noteq> ident) (points s)"
proof -
  have twice: "map ((\<lambda>q. if p_id q = ident then q\<lparr>p_showNoise := \<not> p_showNoise q\<rparr> else q) \<circ>
      (\<lambda>q. if p_id q = ident then q\<lparr>p_showNoise := \<not> p_showNoise q\<rparr> else q)) ps = ps"
    for ps :: "MoralPoint list"
    by (induction ps) simp_all
  have kept: "filter (\<lambda>q. p_id q \<noteq> ident)
      (map (\<lambda>q. if p_id q = ident then q\<lparr>p_showNoise := \<not> p_showNoise q\<rparr> else q) ps) =
      filter (\<lambda>q. p_id q \<noteq> ident) ps"
    for ps :: "MoralPoint list"
    by (induction ps) simp_all
  show ?thesis
    by (simp add: toggleNoise_def twice kept)
qed

theorem toggleNoise_twice_witness:
  "points (toggleNoise ''1'' initialState) = map (\<lambda>q. q\<lparr>p_showNoise := False\<rparr>) (points initialState)
   \<and> map p_showNoise (points initialState) = [True]
   \<and> map p_showNoise (points (toggleNoise ''1'' initialState)) = [False]
   \<and> map p_y (points (toggleNoise ''1'' initialState)) = [JNum (- 0.3)]
   \<and> toggleNoise ''1'' (toggleNoise ''1'' initialState) = initialState
   \<and> points (toggleNoise ''7'' initialState) = points initialState"
  using toggleNoise_twice [of "''1''" initialState False]
  by (simp add: toggleNoise_def) (simp add: initialState_def)

section \<open>Empty inputs\<close>

text \<open>
  Claim C10. With an empty action text or an empty intent text the handler returns at
  once: it calls no setter, sends no request and awaits no timer, and the state after
  it is the state before it (no point, no cache entry, no error, no in-flight flag).
\<close>

theorem empty_input_does_nothing:
  assumes "actionInput s = [] \<or> intentInput s = []"
  shows "handleAnalyze env s = [] \<and> analyzed env s = s"
  using assms by (simp add: handleAnalyze_empty analyzed_empty)

theorem empty_input_does_nothing_witness:
  "actionInput initialState = []
   \<and> handleAnalyze (answering fullText fullValue 1730000000000) initialState = []
   \<and> analyzed (answering fullText fullValue 1730000000000) initialState = initialState
   \<and> intentInput (setInputs ''I steal bread'' '''' initialState) = []
   \<and> handleAnalyze (answering fullText fullValue 1730000000000)
        (setInputs ''I steal bread'' '''' initialState) = []"
  using empty_input_does_nothing [of initialState "answering fullText fullValue 1730000000000"]
    empty_input_does_nothing [of "setInputs ''I steal bread'' '''' initialState"
      "answering fullText fullValue 1730000000000"]
  by (simp add: initialState_def setInputs_def)

end
